theory Spec2Isabelle
  imports Main "HOL-Library.Word"
begin

section \<open>Sdc::Options: the option set of a subdivision scheme\<close>

text \<open>
  The class \<open>Options\<close> of \<open>opensubdiv/sdc/options.h\<close> holds four unscoped
  enumerations in four unsigned bit-fields and offers one constructor and a
  getter and a setter for each field.

  An unscoped C++ enumeration is an integer value with named constants: an object of the
  enumeration type can hold a number that no enumerator names, and the setters take such
  an object. The enumeration types are therefore integers here, the enumerators are
  constants with the numbers the declaration gives them (the first is written \<open>= 0\<close>,
  every later one is its predecessor plus one), and the list of the enumerators in the
  order of their declaration is the declared domain of the type.
\<close>

subsection \<open>The enumerations\<close>

type_synonym VtxBoundaryInterpolation = int
type_synonym FVarLinearInterpolation = int
type_synonym CreasingMethod = int
type_synonym TriangleSubdivision = int

definition VTX_BOUNDARY_NONE :: VtxBoundaryInterpolation where
  "VTX_BOUNDARY_NONE = 0"

definition VTX_BOUNDARY_EDGE_ONLY :: VtxBoundaryInterpolation where
  "VTX_BOUNDARY_EDGE_ONLY = VTX_BOUNDARY_NONE + 1"

definition VTX_BOUNDARY_EDGE_AND_CORNER :: VtxBoundaryInterpolation where
  "VTX_BOUNDARY_EDGE_AND_CORNER = VTX_BOUNDARY_EDGE_ONLY + 1"

definition VtxBoundaryInterpolation_decl :: "VtxBoundaryInterpolation list" where
  "VtxBoundaryInterpolation_decl =
     [VTX_BOUNDARY_NONE, VTX_BOUNDARY_EDGE_ONLY, VTX_BOUNDARY_EDGE_AND_CORNER]"

definition FVAR_LINEAR_NONE :: FVarLinearInterpolation where
  "FVAR_LINEAR_NONE = 0"

definition FVAR_LINEAR_CORNERS_ONLY :: FVarLinearInterpolation where
  "FVAR_LINEAR_CORNERS_ONLY = FVAR_LINEAR_NONE + 1"

definition FVAR_LINEAR_CORNERS_PLUS1 :: FVarLinearInterpolation where
  "FVAR_LINEAR_CORNERS_PLUS1 = FVAR_LINEAR_CORNERS_ONLY + 1"

definition FVAR_LINEAR_CORNERS_PLUS2 :: FVarLinearInterpolation where
  "FVAR_LINEAR_CORNERS_PLUS2 = FVAR_LINEAR_CORNERS_PLUS1 + 1"

definition FVAR_LINEAR_BOUNDARIES :: FVarLinearInterpolation where
  "FVAR_LINEAR_BOUNDARIES = FVAR_LINEAR_CORNERS_PLUS2 + 1"

definition FVAR_LINEAR_ALL :: FVarLinearInterpolation where
  "FVAR_LINEAR_ALL = FVAR_LINEAR_BOUNDARIES + 1"

definition FVarLinearInterpolation_decl :: "FVarLinearInterpolation list" where
  "FVarLinearInterpolation_decl =
     [FVAR_LINEAR_NONE, FVAR_LINEAR_CORNERS_ONLY, FVAR_LINEAR_CORNERS_PLUS1,
      FVAR_LINEAR_CORNERS_PLUS2, FVAR_LINEAR_BOUNDARIES, FVAR_LINEAR_ALL]"

definition CREASE_UNIFORM :: CreasingMethod where
  "CREASE_UNIFORM = 0"

definition CREASE_CHAIKIN :: CreasingMethod where
  "CREASE_CHAIKIN = CREASE_UNIFORM + 1"

definition CreasingMethod_decl :: "CreasingMethod list" where
  "CreasingMethod_decl = [CREASE_UNIFORM, CREASE_CHAIKIN]"

definition TRI_SUB_CATMARK :: TriangleSubdivision where
  "TRI_SUB_CATMARK = 0"

definition TRI_SUB_SMOOTH :: TriangleSubdivision where
  "TRI_SUB_SMOOTH = TRI_SUB_CATMARK + 1"

definition TriangleSubdivision_decl :: "TriangleSubdivision list" where
  "TriangleSubdivision_decl = [TRI_SUB_CATMARK, TRI_SUB_SMOOTH]"

subsection \<open>The bit-field members\<close>

text \<open>
  \<open>unsigned int _vtxBoundInterp : 2, _fvarLinInterp : 3, _creasingMethod : 2,
  _triangleSub : 2\<close>: an unsigned bit-field of width \<open>w\<close> is a \<open>w word\<close>. The member
  names lose their leading underscore, which an Isabelle name cannot have.
\<close>

record Options =
  vtxBoundInterp :: "2 word"
  fvarLinInterp :: "3 word"
  creasingMethod :: "2 word"
  triangleSub :: "2 word"

subsection \<open>Constructor, getters and setters\<close>

text \<open>
  Storing an enumeration in an unsigned bit-field of width \<open>w\<close> converts its number to
  the unsigned value congruent to it modulo \<open>2 ^ w\<close>, which is \<open>word_of_int\<close>; no code
  of the class checks the number. A getter casts the bit-field back to the enumeration
  type, which is \<open>uint\<close>. The constructor \<open>Options()\<close> is \<open>Options_ctor\<close>, the
  name \<open>Options\<close> being the record's.
\<close>

definition Options_ctor :: Options where
  "Options_ctor =
     \<lparr>vtxBoundInterp = word_of_int VTX_BOUNDARY_NONE,
      fvarLinInterp = word_of_int FVAR_LINEAR_ALL,
      creasingMethod = word_of_int CREASE_UNIFORM,
      triangleSub = word_of_int TRI_SUB_CATMARK\<rparr>"

definition GetVtxBoundaryInterpolation :: "Options \<Rightarrow> VtxBoundaryInterpolation" where
  "GetVtxBoundaryInterpolation this = uint (vtxBoundInterp this)"

definition SetVtxBoundaryInterpolation :: "VtxBoundaryInterpolation \<Rightarrow> Options \<Rightarrow> Options" where
  "SetVtxBoundaryInterpolation b this = this\<lparr>vtxBoundInterp := word_of_int b\<rparr>"

definition GetFVarLinearInterpolation :: "Options \<Rightarrow> FVarLinearInterpolation" where
  "GetFVarLinearInterpolation this = uint (fvarLinInterp this)"

definition SetFVarLinearInterpolation :: "FVarLinearInterpolation \<Rightarrow> Options \<Rightarrow> Options" where
  "SetFVarLinearInterpolation b this = this\<lparr>fvarLinInterp := word_of_int b\<rparr>"

definition GetCreasingMethod :: "Options \<Rightarrow> CreasingMethod" where
  "GetCreasingMethod this = uint (creasingMethod this)"

definition SetCreasingMethod :: "CreasingMethod \<Rightarrow> Options \<Rightarrow> Options" where
  "SetCreasingMethod c this = this\<lparr>creasingMethod := word_of_int c\<rparr>"

definition GetTriangleSubdivision :: "Options \<Rightarrow> TriangleSubdivision" where
  "GetTriangleSubdivision this = uint (triangleSub this)"

definition SetTriangleSubdivision :: "TriangleSubdivision \<Rightarrow> Options \<Rightarrow> Options" where
  "SetTriangleSubdivision t this = this\<lparr>triangleSub := word_of_int t\<rparr>"

subsection \<open>Comparison\<close>

text \<open>
  Modelled from the spec: the class declares no \<open>operator==\<close> and no other comparison.
  The specification's equality is "two instances are equal iff all four fields are
  equal"; the members are private, so a comparison written against the class compares
  what the four getters return.
\<close>

definition Options_equal :: "Options \<Rightarrow> Options \<Rightarrow> bool" where
  "Options_equal a b \<longleftrightarrow>
     GetVtxBoundaryInterpolation a = GetVtxBoundaryInterpolation b
     \<and> GetFVarLinearInterpolation a = GetFVarLinearInterpolation b
     \<and> GetCreasingMethod a = GetCreasingMethod b
     \<and> GetTriangleSubdivision a = GetTriangleSubdivision b"

subsection \<open>Objects in a store\<close>

text \<open>
  The methods work on the object \<open>this\<close> points to, and a copy is a second object.
  A store maps the addresses of the live \<open>Options\<close> objects to their values. A call on
  an address that holds no object has no result (\<open>None\<close>). The copy constructor is the
  one the compiler generates for the class: it copies the four members one by one.
\<close>

type_synonym addr = nat
type_synonym store = "addr \<rightharpoonup> Options"

definition copy_construct :: "addr \<Rightarrow> addr \<Rightarrow> store \<Rightarrow> store option" where
  "copy_construct dst src s =
     (case s src of
        None \<Rightarrow> None
      | Some other \<Rightarrow>
          Some (s(dst \<mapsto> \<lparr>vtxBoundInterp = vtxBoundInterp other,
                            fvarLinInterp = fvarLinInterp other,
                            creasingMethod = creasingMethod other,
                            triangleSub = triangleSub other\<rparr>)))"

text \<open>The default constructor builds its object at the address it is given.\<close>

definition construct :: "addr \<Rightarrow> store \<Rightarrow> store" where
  "construct this s = s(this \<mapsto> Options_ctor)"

datatype getter_call =
    CallGetVtxBoundaryInterpolation
  | CallGetFVarLinearInterpolation
  | CallGetCreasingMethod
  | CallGetTriangleSubdivision

datatype setter_call =
    CallSetVtxBoundaryInterpolation VtxBoundaryInterpolation
  | CallSetFVarLinearInterpolation FVarLinearInterpolation
  | CallSetCreasingMethod CreasingMethod
  | CallSetTriangleSubdivision TriangleSubdivision

fun run_getter :: "getter_call \<Rightarrow> Options \<Rightarrow> int" where
  "run_getter CallGetVtxBoundaryInterpolation this = GetVtxBoundaryInterpolation this"
| "run_getter CallGetFVarLinearInterpolation this = GetFVarLinearInterpolation this"
| "run_getter CallGetCreasingMethod this = GetCreasingMethod this"
| "run_getter CallGetTriangleSubdivision this = GetTriangleSubdivision this"

fun run_setter :: "setter_call \<Rightarrow> Options \<Rightarrow> Options" where
  "run_setter (CallSetVtxBoundaryInterpolation b) this = SetVtxBoundaryInterpolation b this"
| "run_setter (CallSetFVarLinearInterpolation b) this = SetFVarLinearInterpolation b this"
| "run_setter (CallSetCreasingMethod c) this = SetCreasingMethod c this"
| "run_setter (CallSetTriangleSubdivision t) this = SetTriangleSubdivision t this"

text \<open>A getter is a \<open>const\<close> method: the call returns its value and the store it found.\<close>

definition call_getter :: "addr \<Rightarrow> getter_call \<Rightarrow> store \<Rightarrow> (int \<times> store) option" where
  "call_getter this g s =
     (case s this of None \<Rightarrow> None | Some obj \<Rightarrow> Some (run_getter g obj, s))"

definition call_setter :: "addr \<Rightarrow> setter_call \<Rightarrow> store \<Rightarrow> store option" where
  "call_setter this m s =
     (case s this of None \<Rightarrow> None | Some obj \<Rightarrow> Some (s(this \<mapsto> run_setter m obj)))"

fun call_setters :: "addr \<Rightarrow> setter_call list \<Rightarrow> store \<Rightarrow> store option" where
  "call_setters this [] s = Some s"
| "call_setters this (m # ms) s =
     (case call_setter this m s of None \<Rightarrow> None | Some s' \<Rightarrow> call_setters this ms s')"

subsection \<open>Instances a well-typed client can build\<close>

text \<open>
  The values reached from the default constructor by setter calls whose argument is an
  enumerator of the parameter's type.
\<close>

inductive reachable :: "Options \<Rightarrow> bool" where
  reachable_ctor: "reachable Options_ctor"
| reachable_SetVtxBoundaryInterpolation:
    "reachable this \<Longrightarrow> b \<in> set VtxBoundaryInterpolation_decl
       \<Longrightarrow> reachable (SetVtxBoundaryInterpolation b this)"
| reachable_SetFVarLinearInterpolation:
    "reachable this \<Longrightarrow> b \<in> set FVarLinearInterpolation_decl
       \<Longrightarrow> reachable (SetFVarLinearInterpolation b this)"
| reachable_SetCreasingMethod:
    "reachable this \<Longrightarrow> c \<in> set CreasingMethod_decl
       \<Longrightarrow> reachable (SetCreasingMethod c this)"
| reachable_SetTriangleSubdivision:
    "reachable this \<Longrightarrow> t \<in> set TriangleSubdivision_decl
       \<Longrightarrow> reachable (SetTriangleSubdivision t this)"

section \<open>Auxiliary facts\<close>

lemmas enumerator_defs =
  VTX_BOUNDARY_NONE_def VTX_BOUNDARY_EDGE_ONLY_def VTX_BOUNDARY_EDGE_AND_CORNER_def
  FVAR_LINEAR_NONE_def FVAR_LINEAR_CORNERS_ONLY_def FVAR_LINEAR_CORNERS_PLUS1_def
  FVAR_LINEAR_CORNERS_PLUS2_def FVAR_LINEAR_BOUNDARIES_def FVAR_LINEAR_ALL_def
  CREASE_UNIFORM_def CREASE_CHAIKIN_def TRI_SUB_CATMARK_def TRI_SUB_SMOOTH_def

lemmas decl_defs =
  VtxBoundaryInterpolation_decl_def FVarLinearInterpolation_decl_def
  CreasingMethod_decl_def TriangleSubdivision_decl_def

lemmas getter_defs =
  GetVtxBoundaryInterpolation_def GetFVarLinearInterpolation_def
  GetCreasingMethod_def GetTriangleSubdivision_def

lemmas setter_defs =
  SetVtxBoundaryInterpolation_def SetFVarLinearInterpolation_def
  SetCreasingMethod_def SetTriangleSubdivision_def

subsection \<open>Bit-fields and declared domains\<close>

text \<open>
  What a bit-field of two or three bits reads back after a number was stored in it, and
  the declared domains as intervals.
\<close>

lemma bitfield2_exact: "0 \<le> v \<Longrightarrow> v < 4 \<Longrightarrow> uint (word_of_int v :: 2 word) = v"
  by (simp add: uint_word_of_int)

lemma bitfield3_exact: "0 \<le> v \<Longrightarrow> v < 8 \<Longrightarrow> uint (word_of_int v :: 3 word) = v"
  by (simp add: uint_word_of_int)

lemma decl_sets:
  "set VtxBoundaryInterpolation_decl = {0, 1, 2}"
  "set FVarLinearInterpolation_decl = {0, 1, 2, 3, 4, 5}"
  "set CreasingMethod_decl = {0, 1}"
  "set TriangleSubdivision_decl = {0, 1}"
  by (simp_all add: decl_defs enumerator_defs)

lemma in_decl_iff:
  "b \<in> set VtxBoundaryInterpolation_decl \<longleftrightarrow> 0 \<le> b \<and> b \<le> 2"
  "f \<in> set FVarLinearInterpolation_decl \<longleftrightarrow> 0 \<le> f \<and> f \<le> 5"
  "c \<in> set CreasingMethod_decl \<longleftrightarrow> 0 \<le> c \<and> c \<le> 1"
  "t \<in> set TriangleSubdivision_decl \<longleftrightarrow> 0 \<le> t \<and> t \<le> 1"
  unfolding decl_sets by auto

lemma le1_cases: "0 \<le> (x::int) \<Longrightarrow> x \<le> 1 \<Longrightarrow> x \<in> {0, 1}"
  by auto

lemma le2_cases: "0 \<le> (x::int) \<Longrightarrow> x \<le> 2 \<Longrightarrow> x \<in> {0, 1, 2}"
  by auto

lemma le5_cases: "0 \<le> (x::int) \<Longrightarrow> x \<le> 5 \<Longrightarrow> x \<in> {0, 1, 2, 3, 4, 5}"
  by auto

section \<open>The default constructor\<close>

text \<open>
  C1. A default-constructed \<open>Options\<close> reads back as vertex boundary interpolation
  \<open>VTX_BOUNDARY_NONE\<close>, face-varying linear interpolation \<open>FVAR_LINEAR_ALL\<close>, creasing
  method \<open>CREASE_UNIFORM\<close> and triangle subdivision \<open>TRI_SUB_CATMARK\<close>.
\<close>

theorem default_constructed_options:
  "GetVtxBoundaryInterpolation Options_ctor = VTX_BOUNDARY_NONE
   \<and> GetFVarLinearInterpolation Options_ctor = FVAR_LINEAR_ALL
   \<and> GetCreasingMethod Options_ctor = CREASE_UNIFORM
   \<and> GetTriangleSubdivision Options_ctor = TRI_SUB_CATMARK"
  by (simp add: Options_ctor_def getter_defs enumerator_defs)

section \<open>Setters and getters on one object\<close>

text \<open>
  C2. For each of the four fields and every enumerator of the field's type, the getter
  called after the setter returns the enumerator that was set, whatever the object held
  before.
\<close>

theorem set_get_round_trip:
  "(b \<in> set VtxBoundaryInterpolation_decl
      \<longrightarrow> GetVtxBoundaryInterpolation (SetVtxBoundaryInterpolation b this) = b)
   \<and> (f \<in> set FVarLinearInterpolation_decl
      \<longrightarrow> GetFVarLinearInterpolation (SetFVarLinearInterpolation f this) = f)
   \<and> (c \<in> set CreasingMethod_decl
      \<longrightarrow> GetCreasingMethod (SetCreasingMethod c this) = c)
   \<and> (t \<in> set TriangleSubdivision_decl
      \<longrightarrow> GetTriangleSubdivision (SetTriangleSubdivision t this) = t)"
  by (simp add: in_decl_iff getter_defs setter_defs bitfield2_exact bitfield3_exact)

text \<open>
  The round trip on a default-constructed object, with the last enumerator of each type.
\<close>

theorem set_get_round_trip_witness:
  "VTX_BOUNDARY_EDGE_AND_CORNER \<in> set VtxBoundaryInterpolation_decl
   \<and> GetVtxBoundaryInterpolation
        (SetVtxBoundaryInterpolation VTX_BOUNDARY_EDGE_AND_CORNER Options_ctor)
      = VTX_BOUNDARY_EDGE_AND_CORNER
   \<and> FVAR_LINEAR_ALL \<in> set FVarLinearInterpolation_decl
   \<and> GetFVarLinearInterpolation (SetFVarLinearInterpolation FVAR_LINEAR_ALL Options_ctor)
      = FVAR_LINEAR_ALL
   \<and> CREASE_CHAIKIN \<in> set CreasingMethod_decl
   \<and> GetCreasingMethod (SetCreasingMethod CREASE_CHAIKIN Options_ctor) = CREASE_CHAIKIN
   \<and> TRI_SUB_SMOOTH \<in> set TriangleSubdivision_decl
   \<and> GetTriangleSubdivision (SetTriangleSubdivision TRI_SUB_SMOOTH Options_ctor)
      = TRI_SUB_SMOOTH"
  using set_get_round_trip [of VTX_BOUNDARY_EDGE_AND_CORNER Options_ctor
      FVAR_LINEAR_ALL CREASE_CHAIKIN TRI_SUB_SMOOTH]
  by (simp add: decl_defs)

text \<open>
  C3. A setter called with an enumerator of its field's type leaves the three other
  bit-fields as they were.
\<close>

theorem setters_frame:
  "(b \<in> set VtxBoundaryInterpolation_decl \<longrightarrow>
      fvarLinInterp (SetVtxBoundaryInterpolation b this) = fvarLinInterp this
      \<and> creasingMethod (SetVtxBoundaryInterpolation b this) = creasingMethod this
      \<and> triangleSub (SetVtxBoundaryInterpolation b this) = triangleSub this)
   \<and> (f \<in> set FVarLinearInterpolation_decl \<longrightarrow>
      vtxBoundInterp (SetFVarLinearInterpolation f this) = vtxBoundInterp this
      \<and> creasingMethod (SetFVarLinearInterpolation f this) = creasingMethod this
      \<and> triangleSub (SetFVarLinearInterpolation f this) = triangleSub this)
   \<and> (c \<in> set CreasingMethod_decl \<longrightarrow>
      vtxBoundInterp (SetCreasingMethod c this) = vtxBoundInterp this
      \<and> fvarLinInterp (SetCreasingMethod c this) = fvarLinInterp this
      \<and> triangleSub (SetCreasingMethod c this) = triangleSub this)
   \<and> (t \<in> set TriangleSubdivision_decl \<longrightarrow>
      vtxBoundInterp (SetTriangleSubdivision t this) = vtxBoundInterp this
      \<and> fvarLinInterp (SetTriangleSubdivision t this) = fvarLinInterp this
      \<and> creasingMethod (SetTriangleSubdivision t this) = creasingMethod this)"
  by (simp add: setter_defs)

text \<open>
  The frame on a default-constructed object: after each setter the three other
  bit-fields still hold what the constructor stored.
\<close>

theorem setters_frame_witness:
  "VTX_BOUNDARY_EDGE_ONLY \<in> set VtxBoundaryInterpolation_decl
   \<and> fvarLinInterp (SetVtxBoundaryInterpolation VTX_BOUNDARY_EDGE_ONLY Options_ctor) = 5
   \<and> creasingMethod (SetVtxBoundaryInterpolation VTX_BOUNDARY_EDGE_ONLY Options_ctor) = 0
   \<and> triangleSub (SetVtxBoundaryInterpolation VTX_BOUNDARY_EDGE_ONLY Options_ctor) = 0
   \<and> FVAR_LINEAR_BOUNDARIES \<in> set FVarLinearInterpolation_decl
   \<and> vtxBoundInterp (SetFVarLinearInterpolation FVAR_LINEAR_BOUNDARIES Options_ctor) = 0
   \<and> creasingMethod (SetFVarLinearInterpolation FVAR_LINEAR_BOUNDARIES Options_ctor) = 0
   \<and> triangleSub (SetFVarLinearInterpolation FVAR_LINEAR_BOUNDARIES Options_ctor) = 0
   \<and> CREASE_CHAIKIN \<in> set CreasingMethod_decl
   \<and> vtxBoundInterp (SetCreasingMethod CREASE_CHAIKIN Options_ctor) = 0
   \<and> fvarLinInterp (SetCreasingMethod CREASE_CHAIKIN Options_ctor) = 5
   \<and> triangleSub (SetCreasingMethod CREASE_CHAIKIN Options_ctor) = 0
   \<and> TRI_SUB_SMOOTH \<in> set TriangleSubdivision_decl
   \<and> vtxBoundInterp (SetTriangleSubdivision TRI_SUB_SMOOTH Options_ctor) = 0
   \<and> fvarLinInterp (SetTriangleSubdivision TRI_SUB_SMOOTH Options_ctor) = 5
   \<and> creasingMethod (SetTriangleSubdivision TRI_SUB_SMOOTH Options_ctor) = 0"
proof -
  have stored: "vtxBoundInterp Options_ctor = 0" "fvarLinInterp Options_ctor = 5"
    "creasingMethod Options_ctor = 0" "triangleSub Options_ctor = 0"
    by (simp_all add: Options_ctor_def enumerator_defs)
  have members: "VTX_BOUNDARY_EDGE_ONLY \<in> set VtxBoundaryInterpolation_decl"
    "FVAR_LINEAR_BOUNDARIES \<in> set FVarLinearInterpolation_decl"
    "CREASE_CHAIKIN \<in> set CreasingMethod_decl"
    "TRI_SUB_SMOOTH \<in> set TriangleSubdivision_decl"
    by (simp_all add: decl_defs)
  show ?thesis
    using members setters_frame [of VTX_BOUNDARY_EDGE_ONLY Options_ctor
        FVAR_LINEAR_BOUNDARIES CREASE_CHAIKIN TRI_SUB_SMOOTH]
    by (simp add: stored)
qed

section \<open>Numbers outside the declared domains\<close>

text \<open>
  C4 claims that setting a field from a number outside its declared domain raises an
  \<open>InvalidOptionValue\<close> error and never wraps the number into an enumerator. The setters
  return \<open>void\<close>, check nothing and throw nothing, and the class has no operation that
  reads an \<open>Options\<close> from numbers. The number 3 names no enumerator of
  \<open>VtxBoundaryInterpolation\<close>: the setter stores it and the getter returns it. The number
  4 does not fit the two bits of \<open>_vtxBoundInterp\<close>: the setter stores 0, the object is
  the default-constructed one again and the getter returns \<open>VTX_BOUNDARY_NONE\<close>.
\<close>

theorem out_of_domain_set_counterexample:
  "3 \<notin> set VtxBoundaryInterpolation_decl
   \<and> SetVtxBoundaryInterpolation 3 Options_ctor
       = \<lparr>vtxBoundInterp = 3, fvarLinInterp = 5, creasingMethod = 0, triangleSub = 0\<rparr>
   \<and> GetVtxBoundaryInterpolation (SetVtxBoundaryInterpolation 3 Options_ctor) = 3
   \<and> 4 \<notin> set VtxBoundaryInterpolation_decl
   \<and> SetVtxBoundaryInterpolation 4 Options_ctor
       = \<lparr>vtxBoundInterp = 0, fvarLinInterp = 5, creasingMethod = 0, triangleSub = 0\<rparr>
   \<and> GetVtxBoundaryInterpolation (SetVtxBoundaryInterpolation 4 Options_ctor)
       = VTX_BOUNDARY_NONE"
  by (simp add: decl_defs enumerator_defs Options_ctor_def getter_defs setter_defs)

text \<open>
  C4, as the code has it. A setter stores any number \<open>v\<close> modulo \<open>2 ^ w\<close>, \<open>w\<close> the
  width of its bit-field (2, 3, 2 and 2), without an error, and the getter returns
  \<open>v mod 2 ^ w\<close>.
\<close>

theorem setters_truncate:
  "GetVtxBoundaryInterpolation (SetVtxBoundaryInterpolation v this) = v mod 2 ^ 2
   \<and> GetFVarLinearInterpolation (SetFVarLinearInterpolation v this) = v mod 2 ^ 3
   \<and> GetCreasingMethod (SetCreasingMethod v this) = v mod 2 ^ 2
   \<and> GetTriangleSubdivision (SetTriangleSubdivision v this) = v mod 2 ^ 2"
  by (simp add: getter_defs setter_defs uint_word_of_int)

section \<open>The declared domains as an invariant\<close>

lemma reachable_in_range:
  "reachable this \<Longrightarrow>
     uint (vtxBoundInterp this) \<le> 2 \<and> uint (fvarLinInterp this) \<le> 5
     \<and> uint (creasingMethod this) \<le> 1 \<and> uint (triangleSub this) \<le> 1"
proof (induction rule: reachable.induct)
  case reachable_ctor
  show ?case
    by (simp add: Options_ctor_def enumerator_defs)
next
  case (reachable_SetVtxBoundaryInterpolation this b)
  then show ?case
    by (simp add: SetVtxBoundaryInterpolation_def in_decl_iff bitfield2_exact)
next
  case (reachable_SetFVarLinearInterpolation this b)
  then show ?case
    by (simp add: SetFVarLinearInterpolation_def in_decl_iff bitfield3_exact)
next
  case (reachable_SetCreasingMethod this c)
  then show ?case
    by (simp add: SetCreasingMethod_def in_decl_iff bitfield2_exact)
next
  case (reachable_SetTriangleSubdivision this t)
  then show ?case
    by (simp add: SetTriangleSubdivision_def in_decl_iff bitfield2_exact)
qed

text \<open>
  C5. In every instance reached from the default constructor by setter calls with
  enumerators, each bit-field holds a number of its declared domain: the vertex boundary
  field one of 0, 1, 2, the face-varying field one of 0 to 5, the creasing field and the
  triangle subdivision field 0 or 1.
\<close>

theorem reachable_fields_in_domain:
  assumes "reachable this"
  shows "uint (vtxBoundInterp this) \<in> set VtxBoundaryInterpolation_decl
     \<and> uint (fvarLinInterp this) \<in> set FVarLinearInterpolation_decl
     \<and> uint (creasingMethod this) \<in> set CreasingMethod_decl
     \<and> uint (triangleSub this) \<in> set TriangleSubdivision_decl
     \<and> uint (vtxBoundInterp this) \<in> {0, 1, 2}
     \<and> uint (fvarLinInterp this) \<in> {0, 1, 2, 3, 4, 5}
     \<and> uint (creasingMethod this) \<in> {0, 1}
     \<and> uint (triangleSub this) \<in> {0, 1}"
proof -
  from assms have r: "uint (vtxBoundInterp this) \<le> 2" "uint (fvarLinInterp this) \<le> 5"
      "uint (creasingMethod this) \<le> 1" "uint (triangleSub this) \<le> 1"
    by (simp_all add: reachable_in_range)
  have "uint (vtxBoundInterp this) \<in> {0, 1, 2}"
    using r(1) by (intro le2_cases) simp_all
  moreover have "uint (fvarLinInterp this) \<in> {0, 1, 2, 3, 4, 5}"
    using r(2) by (intro le5_cases) simp_all
  moreover have "uint (creasingMethod this) \<in> {0, 1}"
    using r(3) by (intro le1_cases) simp_all
  moreover have "uint (triangleSub this) \<in> {0, 1}"
    using r(4) by (intro le1_cases) simp_all
  ultimately show ?thesis
    unfolding decl_sets by blast
qed

text \<open>
  The invariant on the instance of the specification's example: vertex boundary set to
  \<open>VTX_BOUNDARY_EDGE_AND_CORNER\<close>, then face-varying set to \<open>FVAR_LINEAR_CORNERS_ONLY\<close>.
\<close>

theorem reachable_fields_in_domain_witness:
  "reachable (SetFVarLinearInterpolation FVAR_LINEAR_CORNERS_ONLY
      (SetVtxBoundaryInterpolation VTX_BOUNDARY_EDGE_AND_CORNER Options_ctor))
   \<and> SetFVarLinearInterpolation FVAR_LINEAR_CORNERS_ONLY
      (SetVtxBoundaryInterpolation VTX_BOUNDARY_EDGE_AND_CORNER Options_ctor)
     = \<lparr>vtxBoundInterp = 2, fvarLinInterp = 1, creasingMethod = 0, triangleSub = 0\<rparr>
   \<and> uint (vtxBoundInterp \<lparr>vtxBoundInterp = 2, fvarLinInterp = 1, creasingMethod = 0,
          triangleSub = 0\<rparr>) \<in> set VtxBoundaryInterpolation_decl
   \<and> uint (fvarLinInterp \<lparr>vtxBoundInterp = 2, fvarLinInterp = 1, creasingMethod = 0,
          triangleSub = 0\<rparr>) \<in> set FVarLinearInterpolation_decl
   \<and> uint (creasingMethod \<lparr>vtxBoundInterp = 2, fvarLinInterp = 1, creasingMethod = 0,
          triangleSub = 0\<rparr>) \<in> set CreasingMethod_decl
   \<and> uint (triangleSub \<lparr>vtxBoundInterp = 2, fvarLinInterp = 1, creasingMethod = 0,
          triangleSub = 0\<rparr>) \<in> set TriangleSubdivision_decl"
proof -
  let ?opts = "SetFVarLinearInterpolation FVAR_LINEAR_CORNERS_ONLY
      (SetVtxBoundaryInterpolation VTX_BOUNDARY_EDGE_AND_CORNER Options_ctor)"
  have members: "VTX_BOUNDARY_EDGE_AND_CORNER \<in> set VtxBoundaryInterpolation_decl"
    "FVAR_LINEAR_CORNERS_ONLY \<in> set FVarLinearInterpolation_decl"
    by (simp_all add: decl_defs)
  have built: "reachable ?opts"
    by (intro reachable.intros members)
  have val: "?opts
     = \<lparr>vtxBoundInterp = 2, fvarLinInterp = 1, creasingMethod = 0, triangleSub = 0\<rparr>"
    by (simp add: setter_defs Options_ctor_def enumerator_defs)
  from built reachable_fields_in_domain [OF built] val show ?thesis
    by metis
qed

section \<open>Equality of instances\<close>

text \<open>
  The comparison reads the getters; the instance is its four bit-fields. Two bit-fields
  that read the same hold the same bits, and a setter that stores an enumerator the field
  did not hold changes what the getter of that field returns.
\<close>

lemma Options_equal_stored:
  "Options_equal a b \<longleftrightarrow>
     vtxBoundInterp a = vtxBoundInterp b \<and> fvarLinInterp a = fvarLinInterp b
     \<and> creasingMethod a = creasingMethod b \<and> triangleSub a = triangleSub b"
  by (auto simp add: Options_equal_def getter_defs intro: word_uint_eqI)

lemma SetVtxBoundaryInterpolation_unequal:
  assumes "Options_equal a b" and "v \<in> set VtxBoundaryInterpolation_decl"
    and "v \<noteq> GetVtxBoundaryInterpolation a"
  shows "\<not> Options_equal (SetVtxBoundaryInterpolation v a) b"
proof
  assume "Options_equal (SetVtxBoundaryInterpolation v a) b"
  with assms(1) have "GetVtxBoundaryInterpolation (SetVtxBoundaryInterpolation v a)
      = GetVtxBoundaryInterpolation a"
    by (simp add: Options_equal_def)
  with assms(2,3) show False
    by (simp add: GetVtxBoundaryInterpolation_def SetVtxBoundaryInterpolation_def
        in_decl_iff bitfield2_exact)
qed

lemma SetFVarLinearInterpolation_unequal:
  assumes "Options_equal a b" and "f \<in> set FVarLinearInterpolation_decl"
    and "f \<noteq> GetFVarLinearInterpolation a"
  shows "\<not> Options_equal (SetFVarLinearInterpolation f a) b"
proof
  assume "Options_equal (SetFVarLinearInterpolation f a) b"
  with assms(1) have "GetFVarLinearInterpolation (SetFVarLinearInterpolation f a)
      = GetFVarLinearInterpolation a"
    by (simp add: Options_equal_def)
  with assms(2,3) show False
    by (simp add: GetFVarLinearInterpolation_def SetFVarLinearInterpolation_def
        in_decl_iff bitfield3_exact)
qed

lemma SetCreasingMethod_unequal:
  assumes "Options_equal a b" and "c \<in> set CreasingMethod_decl"
    and "c \<noteq> GetCreasingMethod a"
  shows "\<not> Options_equal (SetCreasingMethod c a) b"
proof
  assume "Options_equal (SetCreasingMethod c a) b"
  with assms(1) have "GetCreasingMethod (SetCreasingMethod c a) = GetCreasingMethod a"
    by (simp add: Options_equal_def)
  with assms(2,3) show False
    by (simp add: GetCreasingMethod_def SetCreasingMethod_def in_decl_iff bitfield2_exact)
qed

lemma SetTriangleSubdivision_unequal:
  assumes "Options_equal a b" and "t \<in> set TriangleSubdivision_decl"
    and "t \<noteq> GetTriangleSubdivision a"
  shows "\<not> Options_equal (SetTriangleSubdivision t a) b"
proof
  assume "Options_equal (SetTriangleSubdivision t a) b"
  with assms(1) have "GetTriangleSubdivision (SetTriangleSubdivision t a)
      = GetTriangleSubdivision a"
    by (simp add: Options_equal_def)
  with assms(2,3) show False
    by (simp add: GetTriangleSubdivision_def SetTriangleSubdivision_def
        in_decl_iff bitfield2_exact)
qed

text \<open>
  C6. Two instances compare equal if and only if their four stored fields are equal; two
  objects built by the default constructor, at any two addresses, both hold the
  default-constructed instance and compare equal; and of two instances that compare
  equal, the one on which a setter stores an enumerator other than the one the field held
  no longer compares equal to the other.
\<close>

theorem options_equality:
  "(Options_equal a b \<longleftrightarrow>
      vtxBoundInterp a = vtxBoundInterp b \<and> fvarLinInterp a = fvarLinInterp b
      \<and> creasingMethod a = creasingMethod b \<and> triangleSub a = triangleSub b)
   \<and> (\<exists>x y. construct q (construct p s) p = Some x \<and> construct q (construct p s) q = Some y
         \<and> x = Options_ctor \<and> y = Options_ctor \<and> Options_equal x y)
   \<and> (Options_equal a b \<longrightarrow> v \<in> set VtxBoundaryInterpolation_decl
        \<longrightarrow> v \<noteq> GetVtxBoundaryInterpolation a
        \<longrightarrow> \<not> Options_equal (SetVtxBoundaryInterpolation v a) b)
   \<and> (Options_equal a b \<longrightarrow> f \<in> set FVarLinearInterpolation_decl
        \<longrightarrow> f \<noteq> GetFVarLinearInterpolation a
        \<longrightarrow> \<not> Options_equal (SetFVarLinearInterpolation f a) b)
   \<and> (Options_equal a b \<longrightarrow> c \<in> set CreasingMethod_decl
        \<longrightarrow> c \<noteq> GetCreasingMethod a
        \<longrightarrow> \<not> Options_equal (SetCreasingMethod c a) b)
   \<and> (Options_equal a b \<longrightarrow> t \<in> set TriangleSubdivision_decl
        \<longrightarrow> t \<noteq> GetTriangleSubdivision a
        \<longrightarrow> \<not> Options_equal (SetTriangleSubdivision t a) b)"
proof (intro conjI impI)
  show "Options_equal a b \<longleftrightarrow>
      vtxBoundInterp a = vtxBoundInterp b \<and> fvarLinInterp a = fvarLinInterp b
      \<and> creasingMethod a = creasingMethod b \<and> triangleSub a = triangleSub b"
    by (rule Options_equal_stored)
  show "\<exists>x y. construct q (construct p s) p = Some x \<and> construct q (construct p s) q = Some y
         \<and> x = Options_ctor \<and> y = Options_ctor \<and> Options_equal x y"
    by (simp add: construct_def Options_equal_def)
next
  assume "Options_equal a b" "v \<in> set VtxBoundaryInterpolation_decl"
    "v \<noteq> GetVtxBoundaryInterpolation a"
  then show "\<not> Options_equal (SetVtxBoundaryInterpolation v a) b"
    by (rule SetVtxBoundaryInterpolation_unequal)
next
  assume "Options_equal a b" "f \<in> set FVarLinearInterpolation_decl"
    "f \<noteq> GetFVarLinearInterpolation a"
  then show "\<not> Options_equal (SetFVarLinearInterpolation f a) b"
    by (rule SetFVarLinearInterpolation_unequal)
next
  assume "Options_equal a b" "c \<in> set CreasingMethod_decl" "c \<noteq> GetCreasingMethod a"
  then show "\<not> Options_equal (SetCreasingMethod c a) b"
    by (rule SetCreasingMethod_unequal)
next
  assume "Options_equal a b" "t \<in> set TriangleSubdivision_decl"
    "t \<noteq> GetTriangleSubdivision a"
  then show "\<not> Options_equal (SetTriangleSubdivision t a) b"
    by (rule SetTriangleSubdivision_unequal)
qed

text \<open>
  Two objects are default-constructed at the addresses 0 and 1 of an empty store: both
  hold the default-constructed instance, which compares equal to itself, and each setter,
  called on one of them with an enumerator that is not the default, gives an instance
  that no longer compares equal to the other.
\<close>

theorem options_equality_witness:
  "construct 1 (construct 0 Map.empty) 0 = Some Options_ctor
   \<and> construct 1 (construct 0 Map.empty) 1 = Some Options_ctor
   \<and> Options_equal Options_ctor Options_ctor
   \<and> VTX_BOUNDARY_EDGE_ONLY \<in> set VtxBoundaryInterpolation_decl
   \<and> VTX_BOUNDARY_EDGE_ONLY \<noteq> GetVtxBoundaryInterpolation Options_ctor
   \<and> \<not> Options_equal (SetVtxBoundaryInterpolation VTX_BOUNDARY_EDGE_ONLY Options_ctor)
          Options_ctor
   \<and> FVAR_LINEAR_NONE \<in> set FVarLinearInterpolation_decl
   \<and> FVAR_LINEAR_NONE \<noteq> GetFVarLinearInterpolation Options_ctor
   \<and> \<not> Options_equal (SetFVarLinearInterpolation FVAR_LINEAR_NONE Options_ctor) Options_ctor
   \<and> CREASE_CHAIKIN \<in> set CreasingMethod_decl
   \<and> CREASE_CHAIKIN \<noteq> GetCreasingMethod Options_ctor
   \<and> \<not> Options_equal (SetCreasingMethod CREASE_CHAIKIN Options_ctor) Options_ctor
   \<and> TRI_SUB_SMOOTH \<in> set TriangleSubdivision_decl
   \<and> TRI_SUB_SMOOTH \<noteq> GetTriangleSubdivision Options_ctor
   \<and> \<not> Options_equal (SetTriangleSubdivision TRI_SUB_SMOOTH Options_ctor) Options_ctor"
proof -
  have h: "Options_equal Options_ctor Options_ctor"
    "VTX_BOUNDARY_EDGE_ONLY \<in> set VtxBoundaryInterpolation_decl"
    "VTX_BOUNDARY_EDGE_ONLY \<noteq> GetVtxBoundaryInterpolation Options_ctor"
    "FVAR_LINEAR_NONE \<in> set FVarLinearInterpolation_decl"
    "FVAR_LINEAR_NONE \<noteq> GetFVarLinearInterpolation Options_ctor"
    "CREASE_CHAIKIN \<in> set CreasingMethod_decl"
    "CREASE_CHAIKIN \<noteq> GetCreasingMethod Options_ctor"
    "TRI_SUB_SMOOTH \<in> set TriangleSubdivision_decl"
    "TRI_SUB_SMOOTH \<noteq> GetTriangleSubdivision Options_ctor"
    by (simp_all add: Options_equal_def decl_defs enumerator_defs getter_defs Options_ctor_def)
  show ?thesis
    using h options_equality [of Options_ctor Options_ctor 1 0 Map.empty VTX_BOUNDARY_EDGE_ONLY
        FVAR_LINEAR_NONE CREASE_CHAIKIN TRI_SUB_SMOOTH]
    by simp
qed

section \<open>Copies and const methods\<close>

lemma call_setter_other:
  "s this = Some obj \<Longrightarrow> p \<noteq> this \<Longrightarrow>
     \<exists>s' obj'. call_setter this m s = Some s' \<and> s' this = Some obj' \<and> s' p = s p"
  by (simp add: call_setter_def)

lemma call_setters_other:
  "s this = Some obj \<Longrightarrow> p \<noteq> this \<Longrightarrow>
     \<exists>s'. call_setters this ms s = Some s' \<and> s' p = s p"
proof (induction ms arbitrary: s obj)
  case Nil
  show ?case by simp
next
  case (Cons m ms)
  from call_setter_other [of s this obj p m, OF Cons.prems]
  obtain s1 obj1 where s1: "call_setter this m s = Some s1" "s1 this = Some obj1" "s1 p = s p"
    by blast
  from Cons.IH [of s1 obj1, OF s1(2) Cons.prems(2)]
  obtain s2 where "call_setters this ms s1 = Some s2" "s2 p = s1 p"
    by blast
  with s1 show ?case by simp
qed

text \<open>
  C7. After an object is copied to another address, any sequence of setter calls on the
  copy leaves the original with the value it had: the copy starts with that value, every
  call returns, and the original still holds it at the end.
\<close>

theorem copy_independence:
  assumes "s src = Some orig" and "dst \<noteq> src"
  shows "\<exists>s1 s2. copy_construct dst src s = Some s1 \<and> s1 dst = Some orig
           \<and> call_setters dst ms s1 = Some s2 \<and> s2 src = Some orig"
proof -
  let ?s1 = "s(dst \<mapsto> orig)"
  from assms(1) have c: "copy_construct dst src s = Some ?s1"
    by (cases orig) (simp add: copy_construct_def)
  have d: "?s1 dst = Some orig"
    by simp
  from assms(2) have "src \<noteq> dst"
    by blast
  from call_setters_other [of ?s1 dst orig src ms, OF d this]
  obtain s2 where "call_setters dst ms ?s1 = Some s2" "s2 src = ?s1 src"
    by blast
  with c d assms show ?thesis
    by simp
qed

text \<open>
  A default-constructed object at address 0 is copied to address 1 and two fields of the
  copy are set: the copy ends with the two new numbers, the original as constructed.
\<close>

theorem copy_independence_witness:
  "[0 \<mapsto> Options_ctor] (0::nat) = Some Options_ctor \<and> (1::nat) \<noteq> 0
   \<and> copy_construct 1 0 [0 \<mapsto> Options_ctor] = Some [0 \<mapsto> Options_ctor, 1 \<mapsto> Options_ctor]
   \<and> call_setters 1 [CallSetVtxBoundaryInterpolation VTX_BOUNDARY_EDGE_AND_CORNER,
         CallSetFVarLinearInterpolation FVAR_LINEAR_CORNERS_ONLY]
         [0 \<mapsto> Options_ctor, 1 \<mapsto> Options_ctor]
       = Some [0 \<mapsto> Options_ctor,
           1 \<mapsto> \<lparr>vtxBoundInterp = 2, fvarLinInterp = 1, creasingMethod = 0, triangleSub = 0\<rparr>]
   \<and> (\<exists>s1 s2. copy_construct 1 0 [0 \<mapsto> Options_ctor] = Some s1
         \<and> s1 1 = Some Options_ctor
         \<and> call_setters 1 [CallSetVtxBoundaryInterpolation VTX_BOUNDARY_EDGE_AND_CORNER,
               CallSetFVarLinearInterpolation FVAR_LINEAR_CORNERS_ONLY] s1 = Some s2
         \<and> s2 0 = Some Options_ctor)"
proof -
  have h: "[0 \<mapsto> Options_ctor] (0::nat) = Some Options_ctor" "(1::nat) \<noteq> 0"
    by simp_all
  have c: "copy_construct 1 0 [0 \<mapsto> Options_ctor]
      = Some [0 \<mapsto> Options_ctor, 1 \<mapsto> Options_ctor]"
    by (simp add: copy_construct_def Options_ctor_def)
  have m: "call_setters 1 [CallSetVtxBoundaryInterpolation VTX_BOUNDARY_EDGE_AND_CORNER,
         CallSetFVarLinearInterpolation FVAR_LINEAR_CORNERS_ONLY]
         [0 \<mapsto> Options_ctor, 1 \<mapsto> Options_ctor]
       = Some [0 \<mapsto> Options_ctor,
           1 \<mapsto> \<lparr>vtxBoundInterp = 2, fvarLinInterp = 1, creasingMethod = 0, triangleSub = 0\<rparr>]"
    by (simp add: call_setter_def setter_defs Options_ctor_def enumerator_defs)
  from copy_independence [of "[0 \<mapsto> Options_ctor]" 0 Options_ctor 1, OF h] h c m
  show ?thesis
    by blast
qed

text \<open>
  C8. Called on a live object, each getter returns (it has a result), its result is the
  number its bit-field holds, and the store after the call is the store before it.
\<close>

theorem getters_pure:
  assumes "s this = Some obj"
  shows "call_getter this CallGetVtxBoundaryInterpolation s
           = Some (uint (vtxBoundInterp obj), s)
     \<and> call_getter this CallGetFVarLinearInterpolation s
           = Some (uint (fvarLinInterp obj), s)
     \<and> call_getter this CallGetCreasingMethod s
           = Some (uint (creasingMethod obj), s)
     \<and> call_getter this CallGetTriangleSubdivision s
           = Some (uint (triangleSub obj), s)"
  using assms by (simp add: call_getter_def getter_defs)

text \<open>The four getters on a default-constructed object at address 0.\<close>

theorem getters_pure_witness:
  "[0 \<mapsto> Options_ctor] (0::nat) = Some Options_ctor
   \<and> call_getter 0 CallGetVtxBoundaryInterpolation [0 \<mapsto> Options_ctor]
        = Some (0, [0 \<mapsto> Options_ctor])
   \<and> call_getter 0 CallGetFVarLinearInterpolation [0 \<mapsto> Options_ctor]
        = Some (5, [0 \<mapsto> Options_ctor])
   \<and> call_getter 0 CallGetCreasingMethod [0 \<mapsto> Options_ctor]
        = Some (0, [0 \<mapsto> Options_ctor])
   \<and> call_getter 0 CallGetTriangleSubdivision [0 \<mapsto> Options_ctor]
        = Some (0, [0 \<mapsto> Options_ctor])"
proof -
  have h: "[0 \<mapsto> Options_ctor] (0::nat) = Some Options_ctor"
    by simp
  have v: "uint (vtxBoundInterp Options_ctor) = 0" "uint (fvarLinInterp Options_ctor) = 5"
    "uint (creasingMethod Options_ctor) = 0" "uint (triangleSub Options_ctor) = 0"
    by (simp_all add: Options_ctor_def enumerator_defs)
  from getters_pure [of "[0 \<mapsto> Options_ctor]" 0 Options_ctor, OF h] h show ?thesis
    unfolding v by simp
qed

section \<open>The numbers of the enumerators\<close>

text \<open>
  C9. Each enumerator's number is its position in the declaration of its type, counted
  from 0: 0, 1, 2 for \<open>VtxBoundaryInterpolation\<close>, 0 to 5 for
  \<open>FVarLinearInterpolation\<close>, 0, 1 for \<open>CreasingMethod\<close> and for
  \<open>TriangleSubdivision\<close>.
\<close>

theorem enumerator_values:
  "VTX_BOUNDARY_NONE = 0 \<and> VTX_BOUNDARY_EDGE_ONLY = 1 \<and> VTX_BOUNDARY_EDGE_AND_CORNER = 2
   \<and> FVAR_LINEAR_NONE = 0 \<and> FVAR_LINEAR_CORNERS_ONLY = 1 \<and> FVAR_LINEAR_CORNERS_PLUS1 = 2
   \<and> FVAR_LINEAR_CORNERS_PLUS2 = 3 \<and> FVAR_LINEAR_BOUNDARIES = 4 \<and> FVAR_LINEAR_ALL = 5
   \<and> CREASE_UNIFORM = 0 \<and> CREASE_CHAIKIN = 1
   \<and> TRI_SUB_CATMARK = 0 \<and> TRI_SUB_SMOOTH = 1
   \<and> VtxBoundaryInterpolation_decl = map int [0..<length VtxBoundaryInterpolation_decl]
   \<and> FVarLinearInterpolation_decl = map int [0..<length FVarLinearInterpolation_decl]
   \<and> CreasingMethod_decl = map int [0..<length CreasingMethod_decl]
   \<and> TriangleSubdivision_decl = map int [0..<length TriangleSubdivision_decl]"
  by (simp add: decl_defs enumerator_defs upt_rec)

section \<open>Algebra of the setters\<close>

text \<open>
  C10. Setting a field to what its getter returns leaves the instance as it is, for every
  instance, and the setters of two different fields commute, for all arguments.
\<close>

theorem set_get_identity_and_commute:
  "SetVtxBoundaryInterpolation (GetVtxBoundaryInterpolation this) this = this
   \<and> SetFVarLinearInterpolation (GetFVarLinearInterpolation this) this = this
   \<and> SetCreasingMethod (GetCreasingMethod this) this = this
   \<and> SetTriangleSubdivision (GetTriangleSubdivision this) this = this
   \<and> SetVtxBoundaryInterpolation b (SetFVarLinearInterpolation f this)
       = SetFVarLinearInterpolation f (SetVtxBoundaryInterpolation b this)
   \<and> SetVtxBoundaryInterpolation b (SetCreasingMethod c this)
       = SetCreasingMethod c (SetVtxBoundaryInterpolation b this)
   \<and> SetVtxBoundaryInterpolation b (SetTriangleSubdivision t this)
       = SetTriangleSubdivision t (SetVtxBoundaryInterpolation b this)
   \<and> SetFVarLinearInterpolation f (SetCreasingMethod c this)
       = SetCreasingMethod c (SetFVarLinearInterpolation f this)
   \<and> SetFVarLinearInterpolation f (SetTriangleSubdivision t this)
       = SetTriangleSubdivision t (SetFVarLinearInterpolation f this)
   \<and> SetCreasingMethod c (SetTriangleSubdivision t this)
       = SetTriangleSubdivision t (SetCreasingMethod c this)"
  by (simp add: getter_defs setter_defs)

end
